theory Spec2Isabelle
  imports Main
begin

section \<open>Values, text and exceptions\<close>

text \<open>
  A cell of a pandas frame as \<^verbatim>\<open>mitcircs.py\<close> meets it: the float NaN that the
  reader puts where the sheet is empty, Python's \<^verbatim>\<open>None\<close>, a text, or an integer.
  Text is a list of 8-bit code points (Latin-1); floats other than NaN are not modelled.
\<close>

datatype cell = NaN | NoneV | Str string | IntV int

text \<open>
  The exceptions the modelled code can raise, and the one deliberate abort:
  \<open>ColumnNameError msg\<close> stands for the message box titled "Column Name Error..."
  showing \<open>msg\<close>, followed by \<^verbatim>\<open>exit(1)\<close>.
\<close>

datatype error =
    KeyError string
  | IndexError
  | TypeError
  | AttributeError
  | InvalidIndexError
  | ColumnNameError string

definition bind_res :: "error + 'a \<Rightarrow> ('a \<Rightarrow> error + 'b) \<Rightarrow> error + 'b" where
  "bind_res m f = (case m of Inl e \<Rightarrow> Inl e | Inr v \<Rightarrow> f v)"

text \<open>\<^verbatim>\<open>pandas.isna\<close> on a scalar.\<close>

fun isna :: "cell \<Rightarrow> bool" where
  "isna NaN = True"
| "isna NoneV = True"
| "isna (Str s) = False"
| "isna (IntV i) = False"

text \<open>Decimal rendering, as \<^verbatim>\<open>str\<close> gives it for integers.\<close>

fun str_nat :: "nat \<Rightarrow> string" where
  "str_nat n = (if n < 10 then [char_of (48 + n)] else str_nat (n div 10) @ [char_of (48 + n mod 10)])"

declare str_nat.simps [simp del]

definition str_int :: "int \<Rightarrow> string" where
  "str_int i = (if i < 0 then CHR ''-'' # str_nat (nat (- i)) else str_nat (nat i))"

text \<open>\<^verbatim>\<open>str(cell)\<close>.\<close>

fun str_cell :: "cell \<Rightarrow> string" where
  "str_cell NaN = ''nan''"
| "str_cell NoneV = ''None''"
| "str_cell (Str s) = s"
| "str_cell (IntV i) = str_int i"

text \<open>
  \<^verbatim>\<open>str.isspace\<close> on one code point below 256: tab to carriage return, the four
  separators 28 to 31, the space, NEL (133) and the no-break space (160).
\<close>

definition py_isspace :: "char \<Rightarrow> bool" where
  "py_isspace c = (let n = (of_char c :: nat) in
     (9 \<le> n \<and> n \<le> 13) \<or> (28 \<le> n \<and> n \<le> 32) \<or> n = 133 \<or> n = 160)"

text \<open>\<^verbatim>\<open>str.strip()\<close>: leading and trailing whitespace removed.\<close>

definition strip :: "string \<Rightarrow> string" where
  "strip s = rev (dropWhile py_isspace (rev (dropWhile py_isspace s)))"

text \<open>
  \<^verbatim>\<open>str.lower()\<close> on code points below 256: the ASCII capitals and the Latin-1
  capitals 192 to 222 (the multiplication sign 215 apart) move up by 32.
\<close>

definition lower_char :: "char \<Rightarrow> char" where
  "lower_char c = (let n = (of_char c :: nat) in
     if (65 \<le> n \<and> n \<le> 90) \<or> (192 \<le> n \<and> n \<le> 222 \<and> n \<noteq> 215) then char_of (n + 32) else c)"

definition lower :: "string \<Rightarrow> string" where
  "lower s = map lower_char s"

text \<open>\<^verbatim>\<open>s.startswith(p)\<close> and the substring test \<^verbatim>\<open>p in s\<close>.\<close>

definition startswith :: "string \<Rightarrow> string \<Rightarrow> bool" where
  "startswith s p = (take (length p) s = p)"

fun contains :: "string \<Rightarrow> string \<Rightarrow> bool" where
  "contains [] p = (p = [])"
| "contains (c # s) p = (startswith (c # s) p \<or> contains s p)"

section \<open>Cell normalizer\<close>

text \<open>
  \<^verbatim>\<open>string_reformat_nan(cell_in, empty_string = "None given")\<close>. The test is
  \<^verbatim>\<open>pandas.isna(cell_in) or cell_in == "" or cell_in.lower() == "nan" or cell_in == None\<close>,
  evaluated left to right: an integer reaches \<^verbatim>\<open>.lower()\<close>, which it does not have.
\<close>

definition default_empty_string :: string where
  "default_empty_string = ''None given''"

fun string_reformat_nan :: "cell \<Rightarrow> string \<Rightarrow> error + string" where
  "string_reformat_nan NaN empty_string = Inr empty_string"
| "string_reformat_nan NoneV empty_string = Inr empty_string"
| "string_reformat_nan (Str s) empty_string =
     (if s = '''' \<or> lower s = ''nan'' then Inr empty_string else Inr s)"
| "string_reformat_nan (IntV i) empty_string = Inl AttributeError"

section \<open>Unit-code extractor\<close>

text \<open>
  A fragment of Python's \<^verbatim>\<open>re\<close>, enough for the pattern of
  \<^verbatim>\<open>detect_return_unitcode\<close>: literal text, the anchor \<^verbatim>\<open>^\<close> (without
  \<^verbatim>\<open>re.MULTILINE\<close> it holds at the start of the subject only) and a character class
  with bounds \<^verbatim>\<open>{m,n}\<close>, greedy with backtracking.
\<close>

datatype char_class = UpperAZ | Digit09

fun in_class :: "char_class \<Rightarrow> char \<Rightarrow> bool" where
  "in_class UpperAZ c = (65 \<le> (of_char c :: nat) \<and> (of_char c :: nat) \<le> 90)"
| "in_class Digit09 c = (48 \<le> (of_char c :: nat) \<and> (of_char c :: nat) \<le> 57)"

datatype rx = Lit string | Bol | Rep char_class nat nat

text \<open>
  The ways one item matches at the head of the remaining subject, most preferred first,
  each as (text matched, text left). \<open>at_start\<close> says whether the position is the
  start of the whole subject.
\<close>

fun rx_item_match :: "rx \<Rightarrow> bool \<Rightarrow> string \<Rightarrow> (string \<times> string) list" where
  "rx_item_match (Lit l) at_start s =
     (if take (length l) s = l then [(l, drop (length l) s)] else [])"
| "rx_item_match Bol at_start s = (if at_start then [([], s)] else [])"
| "rx_item_match (Rep cls lo hi) at_start s =
     (let most = min hi (length (takeWhile (in_class cls) s))
      in map (\<lambda>k. (take k s, drop k s)) (rev [lo..<Suc most]))"

fun rx_seq_match :: "rx list \<Rightarrow> bool \<Rightarrow> string \<Rightarrow> (string \<times> string) list" where
  "rx_seq_match [] at_start s = [([], s)]"
| "rx_seq_match (r # rs) at_start s =
     concat (map (\<lambda>(m, rest).
                    map (\<lambda>(m', rest'). (m @ m', rest'))
                        (rx_seq_match rs (at_start \<and> m = []) rest))
                 (rx_item_match r at_start s))"

text \<open>
  \<^verbatim>\<open>re.search\<close>: the first start position, from the left, at which the pattern
  matches; the result is \<^verbatim>\<open>group(0)\<close> of that match.
\<close>

fun re_search_from :: "rx list \<Rightarrow> bool \<Rightarrow> string \<Rightarrow> string option" where
  "re_search_from p at_start [] =
     (case rx_seq_match p at_start [] of [] \<Rightarrow> None | (m, rest) # alts \<Rightarrow> Some m)"
| "re_search_from p at_start (c # s) =
     (case rx_seq_match p at_start (c # s) of
        [] \<Rightarrow> re_search_from p False s
      | (m, rest) # alts \<Rightarrow> Some m)"

definition re_search :: "rx list \<Rightarrow> string \<Rightarrow> string option" where
  "re_search p s = re_search_from p True s"

text \<open>
  The pattern as the source compiles it. The triple-quoted text is passed to
  \<^verbatim>\<open>re.compile\<close> with no flag, so its line breaks, its indentation and its two
  \<^verbatim>\<open>#\<close> remarks are literal text of the pattern.
\<close>

definition unitcode_pattern :: "rx list" where
  "unitcode_pattern =
     [Lit ''\<newline>    '', Bol, Rep UpperAZ 1 5,
      Lit ''    # Starts with between 1 and 5 uppercase letters\<newline>    '',
      Rep Digit09 2 6,
      Lit ''     # Immediately followed by between 2 and 6 digits\<newline>    '']"

text \<open>
  The pattern that the remarks in the source describe (what \<^verbatim>\<open>re.VERBOSE\<close> would
  make of the same text): the anchor, one to five capitals, two to six digits.
\<close>

definition unitcode_pattern_verbose :: "rx list" where
  "unitcode_pattern_verbose = [Bol, Rep UpperAZ 1 5, Rep Digit09 2 6]"

definition detect_return_unitcode :: "string \<Rightarrow> string" where
  "detect_return_unitcode string0 =
     (let string = strip string0
      in case re_search unitcode_pattern string of
           None \<Rightarrow> take 9 string
         | Some group0 \<Rightarrow> group0)"

text \<open>The extractor the specification describes, for comparison.\<close>

definition extractUnitCode_spec :: "string \<Rightarrow> string" where
  "extractUnitCode_spec text0 =
     (let trimmed = strip text0
      in case re_search unitcode_pattern_verbose trimmed of
           None \<Rightarrow> take 9 trimmed
         | Some group0 \<Rightarrow> group0)"

section \<open>Fill-in predicate\<close>

definition MINIMUM_REQUIRED_RESPONSES :: int where
  "MINIMUM_REQUIRED_RESPONSES = 4"

text \<open>
  \<^verbatim>\<open>minimum_responses_provided(cells, minimum)\<close>, with the lines it prints as second
  component.
\<close>

definition minimum_responses_provided :: "cell list \<Rightarrow> int \<Rightarrow> bool \<times> string list" where
  "minimum_responses_provided cells minimum0 =
     (let N = int (length cells);
          printed = (if minimum0 > N
                     then [''! Warning !   Length of Series ('' @ str_int N
                             @ '') is less than the required minimum responses (''
                             @ str_int minimum0 @ '')!'',
                           ''    > How have you managed that?'']
                     else []);
          minimum = (if minimum0 > N then N else minimum0);
          omitted = (\<Sum>c\<leftarrow>cells. if isna c then 1 else (0::int));
          provided = max 0 (N - omitted)
      in (provided \<ge> minimum, printed))"

section \<open>Frames\<close>

text \<open>
  A frame: the column names, the row labels and the rows. A frame fresh from the reader
  has the labels \<open>0, 1, 2, ...\<close>, distinct column names (the reader renames
  duplicates) and rows as long as the column list.
\<close>

record dataframe =
  columns :: "string list"
  index :: "nat list"
  rows :: "cell list list"


text \<open>\<^verbatim>\<open>dataframe.head(1)\<close> and \<^verbatim>\<open>dataframe.tail(-1)\<close>.\<close>

definition extract_top_row :: "dataframe \<Rightarrow> dataframe" where
  "extract_top_row df = df\<lparr>index := take 1 (index df), rows := take 1 (rows df)\<rparr>"

definition delete_top_row :: "dataframe \<Rightarrow> dataframe" where
  "delete_top_row df = df\<lparr>index := drop 1 (index df), rows := drop 1 (rows df)\<rparr>"



text \<open>
  Positional access: \<^verbatim>\<open>series.iloc[i]\<close> and \<^verbatim>\<open>series.iloc[[i, j, ...]]\<close>.
  A negative position counts from the end; a position outside the series raises.
\<close>

definition iloc :: "'a list \<Rightarrow> int \<Rightarrow> error + 'a" where
  "iloc xs i =
     (if 0 \<le> i \<and> i < int (length xs) then Inr (xs ! nat i)
      else if i < 0 \<and> - int (length xs) \<le> i then Inr (xs ! nat (int (length xs) + i))
      else Inl IndexError)"

fun iloc_list :: "'a list \<Rightarrow> int list \<Rightarrow> error + 'a list" where
  "iloc_list xs [] = Inr []"
| "iloc_list xs (i # is) =
     bind_res (iloc xs i) (\<lambda>v. bind_res (iloc_list xs is) (\<lambda>vs. Inr (v # vs)))"

text \<open>
  Access by name, \<^verbatim>\<open>row[key]\<close>, on a row paired with the frame's column names.
\<close>

fun getitem :: "string list \<Rightarrow> cell list \<Rightarrow> string \<Rightarrow> error + cell" where
  "getitem (c # cs) (v # vs) key = (if c = key then Inr v else getitem cs vs key)"
| "getitem cs vs key = Inl (KeyError key)"

section \<open>Junk-row removal\<close>





section \<open>Column-block locator\<close>

text \<open>
  A Python \<^verbatim>\<open>dict\<close> as an association list in insertion order:
  \<^verbatim>\<open>d[k] = v\<close> overwrites in place or appends, \<^verbatim>\<open>d[k]\<close> raises KeyError on
  a key that is not there.
\<close>

fun dict_set :: "('k \<times> 'v) list \<Rightarrow> 'k \<Rightarrow> 'v \<Rightarrow> ('k \<times> 'v) list" where
  "dict_set [] k v = [(k, v)]"
| "dict_set ((k', v') # d) k v = (if k' = k then (k', v) # d else (k', v') # dict_set d k v)"

definition dict_get :: "(string \<times> 'v) list \<Rightarrow> string \<Rightarrow> error + 'v" where
  "dict_get d k = (case map_of d k of None \<Rightarrow> Inl (KeyError k) | Some v \<Rightarrow> Inr v)"

text \<open>\<^verbatim>\<open>tuple([str(number) for number in range(1, response_max)])\<close>.\<close>

definition response_numbers :: "nat \<Rightarrow> string list" where
  "response_numbers response_max = map str_nat [1..<response_max]"

text \<open>\<^verbatim>\<open>name.startswith(numbers)\<close> with a tuple of prefixes.\<close>

definition startswith_any :: "string \<Rightarrow> string list \<Rightarrow> bool" where
  "startswith_any s ps = list_ex (startswith s) ps"

text \<open>
  \<^verbatim>\<open>Index.get_indexer(targets)\<close>: the position of each target, \<open>-1\<close> for one
  that is absent; pandas raises InvalidIndexError when the index has a repeated label.
\<close>

fun position :: "string list \<Rightarrow> string \<Rightarrow> int" where
  "position [] t = - 1"
| "position (c # cs) t =
     (if c = t then 0 else (let p = position cs t in if p < 0 then - 1 else p + 1))"

definition get_indexer :: "string list \<Rightarrow> string list \<Rightarrow> error + int list" where
  "get_indexer cols targets =
     (if distinct cols then Inr (map (position cols) targets) else Inl InvalidIndexError)"

text \<open>
  \<^verbatim>\<open>unique_response_locations\<close>. The source filters the keys of
  \<open>response_columns\<close> and then looks each one up again; the model filters the items.
  Writing to the log is left out here and below: it touches the log file and its
  counter only.
\<close>

definition unique_response_locations ::
    "(string \<times> int) list \<Rightarrow> string list \<Rightarrow> (string \<times> int list) list" where
  "unique_response_locations response_columns numbers =
     fold (\<lambda>response responses.
             let indices = map snd (filter (\<lambda>(col, i). startswith col (response @ ''_''))
                                           response_columns)
             in if indices \<noteq> [] then dict_set responses response indices else responses)
          numbers []"

definition locate_response_columns :: "dataframe \<Rightarrow> nat \<Rightarrow> error + (string \<times> int list) list" where
  "locate_response_columns df response_max =
     (let numbers = response_numbers response_max;
          targets = filter (\<lambda>c. startswith_any c numbers) (columns df)
      in bind_res (get_indexer (columns df) targets) (\<lambda>indices.
           let columns_dict = fold (\<lambda>(c, i) d. dict_set d c i) (zip targets indices) []
           in Inr (unique_response_locations columns_dict numbers)))"

section \<open>Column names\<close>

definition COLNAME_SUFFIX_DIVISION :: string where "COLNAME_SUFFIX_DIVISION = ''_1''"
definition COLNAME_SUFFIX_PROGRAMME :: string where "COLNAME_SUFFIX_PROGRAMME = ''_2''"
definition COLNAME_SUFFIX_COURSEYEAR :: string where "COLNAME_SUFFIX_COURSEYEAR = ''_3''"
definition COLNAME_SUFFIX_UNITASSESSMENT :: string where "COLNAME_SUFFIX_UNITASSESSMENT = ''_4''"
definition COLNAME_SUFFIX_OTHERINFORMATION :: string where "COLNAME_SUFFIX_OTHERINFORMATION = ''_Q37''"
definition COLNAME_SUFFIX_RESUBMISSION :: string where "COLNAME_SUFFIX_RESUBMISSION = ''_Q165''"
definition COLNAME_SUFFIX_RESUB_FIRST :: string where "COLNAME_SUFFIX_RESUB_FIRST = ''_1_TEXT''"
definition COLNAME_SUFFIX_RESUB_SECOND :: string where "COLNAME_SUFFIX_RESUB_SECOND = ''_3_TEXT''"
definition COLNAME_SUFFIX_SUBSTATUS :: string where "COLNAME_SUFFIX_SUBSTATUS = ''_Q163''"

definition RESPONSE_COLUMN_INDICES :: "(string \<times> int) list" where
  "RESPONSE_COLUMN_INDICES =
     [(COLNAME_SUFFIX_DIVISION, 0), (COLNAME_SUFFIX_PROGRAMME, 1),
      (COLNAME_SUFFIX_COURSEYEAR, 2), (COLNAME_SUFFIX_UNITASSESSMENT, 3),
      (COLNAME_SUFFIX_OTHERINFORMATION, 4), (COLNAME_SUFFIX_RESUBMISSION, 5),
      (COLNAME_SUFFIX_RESUB_FIRST, 6), (COLNAME_SUFFIX_RESUB_SECOND, 7),
      (COLNAME_SUFFIX_SUBSTATUS, 8)]"

definition COLNAME_PREFIX_DATESUBMITTED :: string where "COLNAME_PREFIX_DATESUBMITTED = ''RecordedDate''"
definition COLNAME_PREFIX_STUDENTNAME :: string where "COLNAME_PREFIX_STUDENTNAME = ''Q1''"
definition COLNAME_PREFIX_EMAILADDRESS :: string where "COLNAME_PREFIX_EMAILADDRESS = ''Q3''"
definition COLNAME_PREFIX_STUDENTID :: string where "COLNAME_PREFIX_STUDENTID = ''Q4''"
definition COLNAME_PREFIX_ISPOSTGRADORRES :: string where "COLNAME_PREFIX_ISPOSTGRADORRES = ''Q150''"
definition COLNAME_PREFIX_SUPERVISCONTACT :: string where "COLNAME_PREFIX_SUPERVISCONTACT = ''Q152''"
definition COLNAME_PREFIX_TIER4_VISA :: string where "COLNAME_PREFIX_TIER4_VISA = ''Q153''"
definition COLNAME_PREFIX_PROPOSEDDEADLINE :: string where "COLNAME_PREFIX_PROPOSEDDEADLINE = ''Q151''"
definition COLNAME_PREFIX_ADVISORNAME :: string where "COLNAME_PREFIX_ADVISORNAME = ''Q17''"
definition COLNAME_PREFIX_MITIGATIONDETAIL :: string where "COLNAME_PREFIX_MITIGATIONDETAIL = ''Q19''"
definition COLNAME_PREFIX_PERIODAFFECTED :: string where "COLNAME_PREFIX_PERIODAFFECTED = ''Q20''"
definition COLNAME_PREFIX_LATEAPPLICATION :: string where "COLNAME_PREFIX_LATEAPPLICATION = ''Q21''"
definition COLNAME_PREFIX_ASSESSMENTCOUNT :: string where "COLNAME_PREFIX_ASSESSMENTCOUNT = ''Q160''"
definition COLNAME_PREFIX_DASS_REGISTERED :: string where "COLNAME_PREFIX_DASS_REGISTERED = ''Q2''"

definition COLUMN_KEY_ERROR_MESSAGES :: "(string \<times> string) list" where
  "COLUMN_KEY_ERROR_MESSAGES =
     [(COLNAME_PREFIX_STUDENTID, ''Could not read 'Student ID' column!\<newline>Expected column name to be 'Q4' - please check this and run again.''),
      (COLNAME_PREFIX_EMAILADDRESS, ''Could not read 'Email Address' column!\<newline> Expected column name to be 'Q3' - please check this and run again.''),
      (COLNAME_PREFIX_DATESUBMITTED, ''Could not read '' @ [CHR 0x27, CHR 0x27] @ '' column!\<newline> Expected column name to be '' @ [CHR 0x27, CHR 0x27] @ '' - please check this and run again.''),
      (COLNAME_PREFIX_ISPOSTGRADORRES, ''Could not read 'Is Postgrad. or Research' column!\<newline> Expected column name to be 'Q150' - please check this and run again.''),
      (COLNAME_PREFIX_ASSESSMENTCOUNT, ''Could not read 'Assessment Count' column!\<newline> Expected column name to be 'Q160' - please check this and run again.''),
      (COLNAME_PREFIX_MITIGATIONDETAIL, ''Could not read 'Details of Mitigation' column!\<newline> Expected column name to be 'Q19' - please check this and run again.''),
      (COLNAME_PREFIX_PERIODAFFECTED, ''Could not read 'Period Affected' column!\<newline> Expected column name to be 'Q20' - please check this and run again.''),
      (COLNAME_PREFIX_ADVISORNAME, ''Could not read 'Advisor Name' column!\<newline> Expected column name to be 'Q17' - please check this and run again.''),
      (COLNAME_PREFIX_LATEAPPLICATION, ''Could not read 'Application Outside of Deadline' column!\<newline> Expected column name to be 'Q21' - please check this and run again.''),
      (COLNAME_PREFIX_SUPERVISCONTACT, ''Could not read 'Supervisor Spoken To' column!\<newline> Expected column name to be 'Q152' - please check this and run again.''),
      (COLNAME_PREFIX_TIER4_VISA, ''Could not read 'On Tier 4 Visa?' column!\<newline> Expected column name to be 'Q153' - please check this and run again.''),
      (COLNAME_PREFIX_PROPOSEDDEADLINE, ''Could not read 'Proposed New Submission Date' column!\<newline> Expected column name to be 'Q151' - please check this and run again.'')]"

section \<open>Header-driven field resolver\<close>

text \<open>\<^verbatim>\<open>Series.dropna\<close>.\<close>

definition dropna :: "cell list \<Rightarrow> cell list" where
  "dropna cells = filter (\<lambda>c. \<not> isna c) cells"

text \<open>
  \<^verbatim>\<open>string_parse_header(row, header, searchstring, ...)\<close>. Only the last line is
  inside the \<^verbatim>\<open>try\<close>: an IndexError from \<^verbatim>\<open>years.iloc[0]\<close> gives the ellipsis.
\<close>

definition string_parse_header :: "cell list \<Rightarrow> dataframe \<Rightarrow> string \<Rightarrow> error + string" where
  "string_parse_header row header searchstring =
     bind_res (iloc (rows header) 0) (\<lambda>top.
       let strings = map str_cell top;
           indices = filter (\<lambda>i. contains (strings ! i) searchstring) [0..<length strings]
       in bind_res (iloc_list row (map int indices)) (\<lambda>years0.
            let years = dropna years0
            in case iloc years 0 of
                 Inl e \<Rightarrow> (if e = IndexError then Inr ''...'' else Inl e)
               | Inr y \<Rightarrow> string_reformat_nan (Str (str_cell y)) default_empty_string))"

section \<open>Record builder\<close>

text \<open>
  \<^verbatim>\<open>class StudentRequest\<close>. The field \<open>DASS\<close> starts as the boolean
  \<^verbatim>\<open>False\<close> and is a text from the first assignment on; the record keeps the text.
\<close>

record student_request =
  name :: string
  ID :: string
  email :: string
  subdate :: string
  programme :: string
  courseyear :: string
  division :: string
  isPGR :: string
  NAffected :: string
  circumstances :: string
  dates_affected :: string
  DASS :: string
  semester :: string
  advisor :: string
  latereason :: string
  evidence :: string
  evidencesummary :: string
  superinformed :: string
  supervisor :: string
  T4Visa :: string
  proposedDL :: string
  asm_codes :: "string list"
  asm_names :: "string list"
  other_asm :: "string list"
  asm_is_resub :: "string list"
  asm_resubdate :: "string list"
  asm_resubstatus :: "string list"

definition StudentRequest :: student_request where
  "StudentRequest =
     \<lparr>name = '''', ID = '''', email = '''', subdate = '''', programme = '''',
      courseyear = '''', division = '''', isPGR = '''', NAffected = '''',
      circumstances = '''', dates_affected = '''', DASS = ''False'', semester = '''',
      advisor = '''', latereason = '''', evidence = '''', evidencesummary = '''',
      superinformed = '''', supervisor = '''', T4Visa = '''', proposedDL = '''',
      asm_codes = [], asm_names = [], other_asm = [], asm_is_resub = [],
      asm_resubdate = [], asm_resubstatus = []\<rparr>"

definition create_student_name :: "string list \<Rightarrow> cell list \<Rightarrow> error + string" where
  "create_student_name cols row =
     bind_res (getitem cols row ''Q1'') (\<lambda>c.
       Inr (strip (if \<not> isna c then str_cell c else '''')))"

text \<open>
  \<^verbatim>\<open>student_is_DASS\<close> returns a boolean or the cell's text; the caller applies
  \<^verbatim>\<open>str\<close> to either.
\<close>

definition student_is_DASS :: "string list \<Rightarrow> cell list \<Rightarrow> bool \<Rightarrow> error + (bool + string)" where
  "student_is_DASS cols row return_input_string =
     bind_res (getitem cols row COLNAME_PREFIX_DASS_REGISTERED) (\<lambda>c.
       if c = Str '''' \<or> c = IntV 0 \<or> isna c then Inr (Inl False)
       else if return_input_string then Inr (Inr (str_cell c))
       else Inr (Inl True))"

fun str_bool_or_text :: "bool + string \<Rightarrow> string" where
  "str_bool_or_text (Inl b) = (if b then ''True'' else ''False'')"
| "str_bool_or_text (Inr s) = s"

text \<open>The recurring expression \<^verbatim>\<open>string_reformat_nan(str(row[key]).strip())\<close>.\<close>

definition reformat_column :: "string list \<Rightarrow> cell list \<Rightarrow> string \<Rightarrow> error + string" where
  "reformat_column cols row key =
     bind_res (getitem cols row key) (\<lambda>c.
       string_reformat_nan (Str (strip (str_cell c))) default_empty_string)"

text \<open>The body of the \<^verbatim>\<open>try\<close>: the scalar fields, read in the source's order.\<close>

definition read_scalars :: "string list \<Rightarrow> dataframe \<Rightarrow> cell list \<Rightarrow> error + student_request" where
  "read_scalars cols header row =
     bind_res (create_student_name cols row) (\<lambda>v_name.
     bind_res (reformat_column cols row COLNAME_PREFIX_STUDENTID) (\<lambda>v_ID.
     bind_res (reformat_column cols row COLNAME_PREFIX_EMAILADDRESS) (\<lambda>v_email.
     bind_res (reformat_column cols row COLNAME_PREFIX_DATESUBMITTED) (\<lambda>v_subdate.
     bind_res (string_parse_header row header ''Programme'') (\<lambda>v_programme.
     bind_res (string_parse_header row header ''Year'') (\<lambda>v_courseyear.
     bind_res (reformat_column cols row COLNAME_PREFIX_ISPOSTGRADORRES) (\<lambda>v_isPGR.
     bind_res (reformat_column cols row COLNAME_PREFIX_ASSESSMENTCOUNT) (\<lambda>v_NAffected.
     bind_res (reformat_column cols row COLNAME_PREFIX_MITIGATIONDETAIL) (\<lambda>v_circumstances.
     bind_res (reformat_column cols row COLNAME_PREFIX_PERIODAFFECTED) (\<lambda>v_dates_affected.
     bind_res (student_is_DASS cols row True) (\<lambda>v_DASS.
     bind_res (reformat_column cols row COLNAME_PREFIX_ADVISORNAME) (\<lambda>v_advisor.
     bind_res (reformat_column cols row COLNAME_PREFIX_LATEAPPLICATION) (\<lambda>v_latereason.
     bind_res (string_parse_header row header ''submitting evidence with your application'') (\<lambda>v_evidence.
     bind_res (reformat_column cols row COLNAME_PREFIX_SUPERVISCONTACT) (\<lambda>v_superinformed.
     bind_res (string_parse_header row header ''Dissertation supervisor name'') (\<lambda>v_supervisor.
     bind_res (reformat_column cols row COLNAME_PREFIX_TIER4_VISA) (\<lambda>v_T4Visa.
     bind_res (reformat_column cols row COLNAME_PREFIX_PROPOSEDDEADLINE) (\<lambda>v_proposedDL.
       Inr (StudentRequest
             \<lparr>name := v_name, ID := v_ID, email := v_email, subdate := v_subdate,
              programme := v_programme, courseyear := v_courseyear, isPGR := v_isPGR,
              NAffected := v_NAffected, circumstances := v_circumstances,
              dates_affected := v_dates_affected, DASS := str_bool_or_text v_DASS,
              semester := ''...'', advisor := v_advisor, latereason := v_latereason,
              evidence := v_evidence, superinformed := v_superinformed,
              supervisor := v_supervisor, T4Visa := v_T4Visa,
              proposedDL := v_proposedDL\<rparr>)))))))))))))))))))"

text \<open>
  \<^verbatim>\<open>except KeyError as kerr\<close>: the message is looked up under the missing column's
  name (the keys raised here are the column-name constants, which
  \<^verbatim>\<open>str(kerr).replace("'", "")\<close> gives back as they are), shown, and the program
  exits. A name without a message makes the lookup itself raise KeyError.
\<close>

definition on_key_error :: "error + 'a \<Rightarrow> error + 'a" where
  "on_key_error r =
     (case r of
        Inl (KeyError k) \<Rightarrow>
          bind_res (dict_get COLUMN_KEY_ERROR_MESSAGES k) (\<lambda>check. Inl (ColumnNameError check))
      | _ \<Rightarrow> r)"

text \<open>\<^verbatim>\<open>not row.iloc[0]\<close>: Python's truth value of a cell, negated.\<close>

fun falsy :: "cell \<Rightarrow> bool" where
  "falsy NaN = False"
| "falsy NoneV = True"
| "falsy (Str s) = (s = '''')"
| "falsy (IntV i) = (i = 0)"

definition string_parse_division :: "cell list \<Rightarrow> error + string" where
  "string_parse_division row =
     bind_res (iloc row 0) (\<lambda>c.
       if falsy c \<or> isna c then Inr ''None provided'' else Inr (str_cell c))"

text \<open>\<^verbatim>\<open>str(cells.iloc[RESPONSE_COLUMN_INDICES[suffix]])\<close>.\<close>

definition block_text :: "cell list \<Rightarrow> string \<Rightarrow> error + string" where
  "block_text cells suffix =
     bind_res (dict_get RESPONSE_COLUMN_INDICES suffix) (\<lambda>i.
     bind_res (iloc cells i) (\<lambda>c. Inr (str_cell c)))"

text \<open>The six \<^verbatim>\<open>append\<close> calls for one block, in the source's order.\<close>

definition append_assessment :: "cell list \<Rightarrow> student_request \<Rightarrow> error + student_request" where
  "append_assessment cells req =
     bind_res (block_text cells COLNAME_SUFFIX_UNITASSESSMENT) (\<lambda>t_code.
     bind_res (block_text cells COLNAME_SUFFIX_UNITASSESSMENT) (\<lambda>t_name.
     bind_res (string_reformat_nan (Str t_name) default_empty_string) (\<lambda>v_name.
     bind_res (block_text cells COLNAME_SUFFIX_RESUBMISSION) (\<lambda>t_is_resub.
     bind_res (string_reformat_nan (Str t_is_resub) default_empty_string) (\<lambda>v_is_resub.
     bind_res (block_text cells COLNAME_SUFFIX_OTHERINFORMATION) (\<lambda>t_other.
     bind_res (string_reformat_nan (Str t_other) ''-'') (\<lambda>v_other.
     bind_res (block_text cells COLNAME_SUFFIX_RESUB_FIRST) (\<lambda>t_resubdate.
     bind_res (string_reformat_nan (Str t_resubdate) default_empty_string) (\<lambda>v_resubdate.
     bind_res (block_text cells COLNAME_SUFFIX_SUBSTATUS) (\<lambda>t_status.
     bind_res (string_reformat_nan (Str t_status) default_empty_string) (\<lambda>v_status.
       Inr (req\<lparr>asm_codes := asm_codes req @ [detect_return_unitcode t_code],
                asm_names := asm_names req @ [v_name],
                asm_is_resub := asm_is_resub req @ [v_is_resub],
                other_asm := other_asm req @ [v_other],
                asm_resubdate := asm_resubdate req @ [v_resubdate],
                asm_resubstatus := asm_resubstatus req @ [v_status]\<rparr>))))))))))))"

text \<open>
  The loop \<^verbatim>\<open>for key in Q_cols.keys()\<close> over one row; the state is the request,
  the division found so far and the flag \<open>first_iteration\<close>.
\<close>

fun response_loop ::
    "cell list \<Rightarrow> (string \<times> int list) list \<Rightarrow> student_request \<times> string \<times> bool
       \<Rightarrow> error + (student_request \<times> string \<times> bool)" where
  "response_loop row [] state = Inr state"
| "response_loop row ((key, positions) # Q_cols) (req, division0, first_iteration) =
     bind_res (iloc_list row positions) (\<lambda>cells.
       if \<not> fst (minimum_responses_provided cells MINIMUM_REQUIRED_RESPONSES)
       then response_loop row Q_cols (req, division0, first_iteration)
       else
         bind_res (if first_iteration then string_parse_division cells else Inr division0)
           (\<lambda>division1.
         bind_res (append_assessment cells req) (\<lambda>req1.
           response_loop row Q_cols (req1, division1, False))))"

text \<open>The loop \<^verbatim>\<open>for _, row in qualtrics.iterrows()\<close>.\<close>

fun requests_loop ::
    "string list \<Rightarrow> dataframe \<Rightarrow> (string \<times> int list) list \<Rightarrow> cell list list
       \<Rightarrow> student_request list \<Rightarrow> error + student_request list" where
  "requests_loop cols header Q_cols [] requests = Inr requests"
| "requests_loop cols header Q_cols (row # remaining) requests =
     bind_res (on_key_error (read_scalars cols header row)) (\<lambda>req.
     bind_res (response_loop row Q_cols (req, '''', True)) (\<lambda>(req1, division1, first1).
       requests_loop cols header Q_cols remaining (requests @ [req1\<lparr>division := division1\<rparr>])))"

definition build_student_requests :: "dataframe \<Rightarrow> error + student_request list" where
  "build_student_requests qualtrics0 =
     (let header = extract_top_row qualtrics0;
          qualtrics = delete_top_row qualtrics0
      in bind_res (locate_response_columns qualtrics 100) (\<lambda>Q_cols.
           requests_loop (columns qualtrics) header Q_cols (rows qualtrics) []))"

section \<open>Tabular projection\<close>

text \<open>\<^verbatim>\<open>sep.join(items)\<close>.\<close>

fun join :: "string \<Rightarrow> string list \<Rightarrow> string" where
  "join sep [] = ''''"
| "join sep [x] = x"
| "join sep (x # y # ys) = x @ sep @ join sep (y # ys)"

text \<open>
  \<^verbatim>\<open>requests_to_spreadsheet\<close> up to the frame it hands to the Excel writer: the
  dictionary \<open>columns\<close>, each key with its list of cells, one cell per request. The
  source fills thirty-three lists in one loop over the requests; the list
  \<open>resubdates\<close> is filled like the others and is not among the dictionary's values.
\<close>

definition resubdates :: "student_request list \<Rightarrow> string list" where
  "resubdates requests = map (\<lambda>req. join ''\<newline>'' (asm_resubdate req)) requests"

definition requests_to_spreadsheet :: "student_request list \<Rightarrow> (string \<times> string list) list" where
  "requests_to_spreadsheet requests =
     [(''Date Submitted'', map subdate requests),
      (''Full Name'', map name requests),
      (''University Email'', map email requests),
      (''Student ID Number'', map ID requests),
      (''Are you applying for a postgraduate dissertation or research project?'', map isPGR requests),
      (''No. Assessments/Exams'', map NAffected requests),
      (''Division'', map division requests),
      (''Programme'', map programme requests),
      (''Year'', map courseyear requests),
      (''Unit Code'', map (\<lambda>req. join ''\<newline>'' (asm_codes req)) requests),
      (''Assessment name and submission date'', map (\<lambda>req. join ''\<newline>'' (asm_names req)) requests),
      (''Is this a resubmission (including date)?'', map (\<lambda>req. join ''\<newline>'' (asm_is_resub req)) requests),
      (''Other Assessment Info.'', map (\<lambda>req. join ''\<newline>'' (other_asm req)) requests),
      (''Submission Status'', map (\<lambda>req. join ''\<newline>'' (asm_resubstatus req)) requests),
      (''Academic Advisor(s)'', map advisor requests),
      (''Reason for Mitigation'', map circumstances requests),
      (''Period Affected'', map dates_affected requests),
      (''Late Application - Reason'', map latereason requests),
      (''DASS Registration'', map DASS requests),
      (''Evidence Declaration'', map evidence requests),
      (''Supervisor Aware?'', map superinformed requests),
      (''Supervisor Name'', map supervisor requests),
      (''Tier 4 Visa'', map T4Visa requests),
      (''Proposed New Deadline'', map proposedDL requests),
      (''Evidence Summary'', map evidencesummary requests),
      (''Outcome'', map (\<lambda>req. ''Pending Outcome...'') requests),
      (''Email Type'', map (\<lambda>req. ''...'') requests),
      (''To Be Sent By (Initials)...'', map (\<lambda>req. ''Pending Outcome...'') requests),
      (''Notes'', map (\<lambda>req. ''...'') requests),
      (''Panel Notes'', map (\<lambda>req. ''...'') requests),
      (''Outcome Sent to Student'', map (\<lambda>req. ''Pending Send...'') requests),
      (''Outcome Sent Date'', map (\<lambda>req. ''Pending Send...'') requests)]"

text \<open>Row \<open>i\<close> of the frame built from that dictionary: cell \<open>i\<close> of each column.\<close>

definition output_row :: "(string \<times> string list) list \<Rightarrow> nat \<Rightarrow> (string \<times> string) list" where
  "output_row table i = map (\<lambda>(c, cells). (c, cells ! i)) table"

section \<open>Predicates used to state the properties\<close>







text \<open>
  The positions of the columns whose name starts with the number \<open>k\<close> and an
  underscore, and the blocks of a column list: one entry for each \<open>k\<close> from 1 to 99
  that has such a column.
\<close>

definition block_positions :: "string list \<Rightarrow> nat \<Rightarrow> int list" where
  "block_positions cols k =
     map int (filter (\<lambda>i. startswith (cols ! i) (str_nat k @ ''_'')) [0..<length cols])"

definition blocks_of :: "string list \<Rightarrow> (string \<times> int list) list" where
  "blocks_of cols =
     concat (map (\<lambda>k. if block_positions cols k \<noteq> [] then [(str_nat k, block_positions cols k)] else [])
                 [1..<100])"

text \<open>A column list whose only columns of block 6 are the four of the specification's example.\<close>

definition six_frame :: dataframe where
  "six_frame =
     \<lparr>columns = [''Q1'', ''6_4'', ''6_Q165'', ''6_1_TEXT'', ''6_Q163'', ''60_1'', ''7_4''],
      index = [], rows = []\<rparr>"

text \<open>
  What the header-driven resolver is to compute, on the row of question texts \<open>questions\<close>
  and a data row: the row's cells at the positions whose question text contains the
  marker, without the NA ones; the first of them through the normalizer, or the ellipsis
  when none is left.
\<close>

definition header_resolved :: "cell list \<Rightarrow> cell list \<Rightarrow> string \<Rightarrow> error + string" where
  "header_resolved questions row marker =
     (case filter (\<lambda>c. \<not> isna c)
             (map ((!) row) (filter (\<lambda>i. contains (str_cell (questions ! i)) marker) [0..<length questions])) of
        [] \<Rightarrow> Inr ''...''
      | c # cs \<Rightarrow> string_reformat_nan (Str (str_cell c)) default_empty_string)"

text \<open>
  The fill-in predicate on the block at \<open>positions\<close> of a row, and the number of
  blocks of a column list that a row fills in.
\<close>

definition block_filled :: "cell list \<Rightarrow> int list \<Rightarrow> bool" where
  "block_filled row positions =
     (case iloc_list row positions of
        Inl e \<Rightarrow> False
      | Inr cells \<Rightarrow> fst (minimum_responses_provided cells MINIMUM_REQUIRED_RESPONSES))"

definition filled_blocks :: "(string \<times> int list) list \<Rightarrow> cell list \<Rightarrow> (string \<times> int list) list" where
  "filled_blocks Q_cols row = filter (\<lambda>(k, positions). block_filled row positions) Q_cols"

text \<open>An ID cell that is missing, empty or blank.\<close>

fun id_cell_empty :: "cell \<Rightarrow> bool" where
  "id_cell_empty NaN = True"
| "id_cell_empty (Str t) = (strip t = '''')"
| "id_cell_empty NoneV = False"
| "id_cell_empty (IntV i) = False"

text \<open>The six lists of a request have the length \<open>n\<close>.\<close>

definition assessments_length :: "student_request \<Rightarrow> nat \<Rightarrow> bool" where
  "assessments_length req n =
     (length (asm_codes req) = n \<and> length (asm_names req) = n \<and> length (other_asm req) = n
      \<and> length (asm_is_resub req) = n \<and> length (asm_resubdate req) = n
      \<and> length (asm_resubstatus req) = n)"

section \<open>Example tables\<close>

definition scalar_columns :: "string list" where
  "scalar_columns =
     [''RecordedDate'', ''Q1'', ''Q3'', ''Q4'', ''Q150'', ''Q160'', ''Q19'', ''Q20'', ''Q2'',
      ''Q17'', ''Q21'', ''Q152'', ''Q153'', ''Q151'']"

definition scalar_header :: "cell list" where
  "scalar_header =
     [Str ''Recorded Date'', Str ''Full name'', Str ''Email'', Str ''Student ID'',
      Str ''Postgraduate project?'', Str ''How many assessments?'', Str ''Circumstances'',
      Str ''Period affected'', Str ''DASS registered?'', Str ''Academic advisor'',
      Str ''Late reason'', Str ''Spoken to supervisor?'', Str ''Tier 4 visa?'',
      Str ''Proposed deadline'']"

definition scalar_cells :: "cell \<Rightarrow> cell list" where
  "scalar_cells student_id =
     [Str ''2025-01-13 10:00'', Str '' Ann Lee '', Str ''ann@uni.example'', student_id,
      Str ''No'', IntV 1, Str ''Illness'', Str ''01/01/25 to 05/01/25'', NaN,
      Str ''Dr Bee'', NaN, NaN, Str ''No'', NaN]"

text \<open>A table with one complete block (number 1) and two response rows: the first
  fills the block in, the second leaves it and the ID cell empty.\<close>

definition block1_columns :: "string list" where
  "block1_columns =
     [''1_1'', ''1_2'', ''1_3'', ''1_4'', ''1_Q37'', ''1_Q165'', ''1_1_TEXT'', ''1_3_TEXT'', ''1_Q163'']"

definition block1_header :: "cell list" where
  "block1_header =
     [Str ''Division'', Str ''Programme'', Str ''Year'', Str ''Unit and assessment'',
      Str ''Other'', Str ''Resubmission?'', Str ''First attempt'', Str ''Second attempt'',
      Str ''Status'']"

definition block1_filled :: "cell list" where
  "block1_filled =
     [Str ''Nursing'', Str ''BNurs'', IntV 3, Str ''NURS34555: essay'', NaN, Str ''No'',
      NaN, NaN, Str ''Submitted'']"

definition full_table :: dataframe where
  "full_table =
     \<lparr>columns = scalar_columns @ block1_columns, index = [0, 1, 2],
      rows = [scalar_header @ block1_header,
              scalar_cells (IntV 1234567) @ block1_filled,
              scalar_cells NaN @ replicate 9 NaN]\<rparr>"

text \<open>A table whose only block (number 6) has the four columns of the specification's
  example, all four filled in by the one response row.\<close>

definition partial_table :: dataframe where
  "partial_table =
     \<lparr>columns = scalar_columns @ [''6_4'', ''6_Q165'', ''6_1_TEXT'', ''6_Q163''], index = [0, 1],
      rows = [scalar_header @ [Str ''Unit and assessment'', Str ''Resubmission?'',
                               Str ''First attempt'', Str ''Status''],
              scalar_cells (IntV 1234567)
                @ [Str ''NURS34555: essay'', Str ''No'', Str ''n/a'', Str ''Submitted'']]\<rparr>"

text \<open>Tables without the column Q4: with one response row, with no response row, and
  with one response row but without the column Q1 as well.\<close>

definition no_id_table :: dataframe where
  "no_id_table =
     \<lparr>columns = [''RecordedDate'', ''Q1'', ''Q3''], index = [0, 1],
      rows = [[Str ''Recorded Date'', Str ''Full name'', Str ''Email''],
              [Str ''2025-01-13 10:00'', Str ''Ann Lee'', Str ''ann@uni.example'']]\<rparr>"

definition no_id_no_rows :: dataframe where
  "no_id_no_rows =
     \<lparr>columns = [''RecordedDate'', ''Q1'', ''Q3''], index = [0],
      rows = [[Str ''Recorded Date'', Str ''Full name'', Str ''Email'']]\<rparr>"

definition no_id_no_name :: dataframe where
  "no_id_no_name =
     \<lparr>columns = [''RecordedDate'', ''Q3''], index = [0, 1],
      rows = [[Str ''Recorded Date'', Str ''Email''],
              [Str ''2025-01-13 10:00'', Str ''ann@uni.example'']]\<rparr>"

text \<open>A request with two assessments.\<close>

definition two_entries :: student_request where
  "two_entries =
     StudentRequest
       \<lparr>name := ''Ann Lee'', ID := ''1234567'',
        asm_codes := [''NURS34555'', ''NURS20012''],
        asm_names := [''NURS34555: essay'', ''NURS20012: exam''],
        other_asm := [''-'', ''-''],
        asm_is_resub := [''No'', ''Yes''],
        asm_resubdate := [''None given'', ''2025-02-20''],
        asm_resubstatus := [''Submitted'', ''Will sit'']\<rparr>"



text \<open>
  A row of question texts in which two questions mention the programme, and a data row
  whose answer to the first of them is empty.
\<close>

definition header_example :: dataframe where
  "header_example =
     \<lparr>columns = [''1_2'', ''2_2'', ''1_3''], index = [0],
      rows = [[Str ''Nursing - Programme'', Str ''Midwifery - Programme'', Str ''Year'']]\<rparr>"

definition answers_example :: "cell list" where
  "answers_example = [NaN, Str ''BMidwif'', IntV 2]"

section \<open>Properties of the cell normalizer\<close>

lemma lower_char_n: "\<forall>c. (lower_char c = CHR ''n'') = (c = CHR ''n'' \<or> c = CHR ''N'')"
  by code_simp

lemma lower_char_a: "\<forall>c. (lower_char c = CHR ''a'') = (c = CHR ''a'' \<or> c = CHR ''A'')"
  by code_simp

lemma lower_nan_iff:
  "lower s = ''nan'' \<longleftrightarrow>
     s \<in> set [''nan'', ''naN'', ''nAn'', ''nAN'', ''Nan'', ''NaN'', ''NAn'', ''NAN'']"
proof -
  have "lower s = ''nan'' \<longleftrightarrow>
        (\<exists>a b c. s = [a, b, c] \<and> lower_char a = CHR ''n'' \<and> lower_char b = CHR ''a''
                   \<and> lower_char c = CHR ''n'')"
    by (auto simp: lower_def map_eq_Cons_conv)
  also have "\<dots> \<longleftrightarrow> s \<in> set [''nan'', ''naN'', ''nAn'', ''nAN'', ''Nan'', ''NaN'', ''NAn'', ''NAN'']"
    using lower_char_n lower_char_a by auto
  finally show ?thesis .
qed

text \<open>
  C3. \<open>string_reformat_nan\<close> never fails on NaN, on \<^verbatim>\<open>None\<close> or on a text. It
  gives the fallback for NaN, for \<^verbatim>\<open>None\<close>, for the empty text and for the text
  "nan" in any of its eight spellings by letter case; every other text comes back as it
  is, untrimmed.
\<close>

theorem string_reformat_nan_contract:
  "string_reformat_nan NaN fallback = Inr fallback
   \<and> string_reformat_nan NoneV fallback = Inr fallback
   \<and> string_reformat_nan (Str s) fallback =
       Inr (if s = '''' \<or> s \<in> set [''nan'', ''naN'', ''nAn'', ''nAN'', ''Nan'', ''NaN'', ''NAn'', ''NAN'']
            then fallback else s)"
  using lower_nan_iff [of s] by simp

theorem string_reformat_nan_contract_witness:
  "string_reformat_nan (Str ''NaN'') default_empty_string = Inr ''None given''
   \<and> string_reformat_nan (Str '''') default_empty_string = Inr ''None given''
   \<and> string_reformat_nan (Str ''  nan '') default_empty_string = Inr ''  nan ''
   \<and> string_reformat_nan (Str ''Nursing'') ''-'' = Inr ''Nursing''"
  using string_reformat_nan_contract [of default_empty_string "''NaN''"]
        string_reformat_nan_contract [of default_empty_string "''''"]
        string_reformat_nan_contract [of default_empty_string "''  nan ''"]
        string_reformat_nan_contract [of "''-''" "''Nursing''"]
  by (simp add: default_empty_string_def)

section \<open>Properties of the unit-code extractor\<close>

text \<open>
  The compiled pattern starts with a line break and four blanks and only then asks for
  the start of the subject, so it matches nowhere.
\<close>

lemma rx_unitcode_no_match: "rx_seq_match unitcode_pattern at_start s = []"
  by (simp add: unitcode_pattern_def)

lemma re_search_from_none: "re_search_from unitcode_pattern b s = None"
  by (induction s arbitrary: b) (simp_all add: rx_unitcode_no_match)

lemma detect_return_unitcode_salvage: "detect_return_unitcode s = take 9 (strip s)"
  by (simp add: detect_return_unitcode_def re_search_def re_search_from_none)

text \<open>
  C1. On the text "AB12: essay", which begins with two capitals and two digits, the
  source returns the first nine characters "AB12: ess", where the described extractor
  returns the code "AB12". On "  NURS34555: essay" both return "NURS34555", the code
  being nine characters long.
\<close>

theorem detect_return_unitcode_short_code:
  "detect_return_unitcode ''AB12: essay'' = ''AB12: ess''
   \<and> extractUnitCode_spec ''AB12: essay'' = ''AB12''
   \<and> detect_return_unitcode ''  NURS34555: essay'' = ''NURS34555''
   \<and> extractUnitCode_spec ''  NURS34555: essay'' = ''NURS34555''"
  by code_simp

section \<open>Properties of the fill-in predicate\<close>

lemma omitted_sum: "(\<Sum>c\<leftarrow>cells. if isna c then 1 else (0::int)) = int (length (filter isna cells))"
  by (induction cells) simp_all

lemma provided_count:
  "int (length cells) - int (length (filter isna cells)) = int (length (filter (\<lambda>c. \<not> isna c) cells))"
  using sum_length_filter_compl [of isna cells] by simp

text \<open>
  C4. \<open>minimum_responses_provided\<close> is true exactly when the number of cells that
  are not NA reaches the minimum, the minimum being lowered to the number of cells when
  it exceeds it; the warning is printed exactly in that case. With two of eight cells
  filled and minimum 4 it is false; with four or more filled it is true.
\<close>

theorem minimum_responses_provided_iff:
  "fst (minimum_responses_provided cells m)
     = (min m (int (length cells)) \<le> int (length (filter (\<lambda>c. \<not> isna c) cells)))
   \<and> (snd (minimum_responses_provided cells m) \<noteq> []) = (int (length cells) < m)"
  unfolding minimum_responses_provided_def Let_def omitted_sum
  using provided_count [of cells] by (auto simp: min_def)

theorem minimum_responses_provided_witness:
  "fst (minimum_responses_provided [Str ''a'', NaN, NaN, Str ''b'', NaN, NaN, NaN, NaN] 4) = False
   \<and> fst (minimum_responses_provided [Str ''a'', NaN, Str ''c'', Str ''b'', NaN, NaN, IntV 1, NaN] 4) = True
   \<and> fst (minimum_responses_provided [Str ''a'', Str ''b''] 4) = True
   \<and> snd (minimum_responses_provided [Str ''a'', Str ''b''] 4) \<noteq> []"
  using minimum_responses_provided_iff [of "[Str ''a'', NaN, NaN, Str ''b'', NaN, NaN, NaN, NaN]" 4]
        minimum_responses_provided_iff [of "[Str ''a'', NaN, Str ''c'', Str ''b'', NaN, NaN, IntV 1, NaN]" 4]
        minimum_responses_provided_iff [of "[Str ''a'', Str ''b'']" 4]
  by simp

section \<open>Properties of the junk-row removal\<close>












section \<open>Properties of the column-block locator\<close>

lemma dict_set_fresh: "k \<notin> fst ` set d \<Longrightarrow> dict_set d k v = d @ [(k, v)]"
  by (induction d) auto

lemma fold_dict_set_append:
  "distinct (map fst kvs) \<Longrightarrow> fst ` set kvs \<inter> fst ` set d = {} \<Longrightarrow>
   fold (\<lambda>(c, i) d. dict_set d c i) kvs d = d @ kvs"
proof (induction kvs arbitrary: d)
  case Nil
  then show ?case by simp
next
  case (Cons kv kvs)
  obtain c i where kv: "kv = (c, i)" by (cases kv)
  from Cons.prems have fresh: "c \<notin> fst ` set d" by (auto simp: kv)
  have "fst ` set kvs \<inter> fst ` set (d @ [(c, i)]) = {}"
    using Cons.prems by (auto simp: kv)
  with Cons.IH [of "d @ [(c, i)]"] Cons.prems show ?case
    by (simp add: kv dict_set_fresh [OF fresh])
qed

lemma fold_responses:
  "distinct ns \<Longrightarrow> set ns \<inter> fst ` set acc = {} \<Longrightarrow>
   fold (\<lambda>r acc. let ix = f r in if ix \<noteq> [] then dict_set acc r ix else acc) ns acc
     = acc @ concat (map (\<lambda>r. if f r \<noteq> [] then [(r, f r)] else []) ns)"
proof (induction ns arbitrary: acc)
  case Nil
  then show ?case by simp
next
  case (Cons n ns)
  from Cons.prems have fresh: "n \<notin> fst ` set acc" by auto
  show ?case
  proof (cases "f n = []")
    case True
    with Cons show ?thesis by simp
  next
    case False
    have "set ns \<inter> fst ` set (acc @ [(n, f n)]) = {}" using Cons.prems by auto
    with Cons.IH [of "acc @ [(n, f n)]"] Cons.prems False show ?thesis
      by (simp add: dict_set_fresh [OF fresh])
  qed
qed

lemma position_nonneg: "t \<in> set cs \<Longrightarrow> 0 \<le> position cs t"
  by (induction cs) (auto simp: Let_def)

lemma position_nth: "distinct cs \<Longrightarrow> i < length cs \<Longrightarrow> position cs (cs ! i) = int i"
proof (induction cs arbitrary: i)
  case Nil
  then show ?case by simp
next
  case (Cons c cs)
  show ?case
  proof (cases i)
    case 0
    then show ?thesis by simp
  next
    case (Suc j)
    with Cons.prems have j: "j < length cs" and ne: "c \<noteq> cs ! j" by auto
    from Cons.IH [OF _ j] Cons.prems have "position cs (cs ! j) = int j" by simp
    with ne Suc show ?thesis by (simp add: Let_def)
  qed
qed

lemma filter_as_positions:
  "filter Q cs = map ((!) cs) (filter (\<lambda>i. Q (cs ! i)) [0..<length cs])"
proof -
  have "filter Q (map ((!) cs) [0..<length cs]) = map ((!) cs) (filter (Q \<circ> (!) cs) [0..<length cs])"
    by (rule filter_map)
  then show ?thesis by (simp add: map_nth comp_def)
qed

lemma positions_of_filter:
  assumes "distinct cs"
  shows "map (position cs) (filter Q cs) = map int (filter (\<lambda>i. Q (cs ! i)) [0..<length cs])"
proof -
  have "map (position cs) (map ((!) cs) (filter (\<lambda>i. Q (cs ! i)) [0..<length cs]))
        = map int (filter (\<lambda>i. Q (cs ! i)) [0..<length cs])"
    using assms by (auto simp: position_nth)
  then show ?thesis using filter_as_positions [of Q cs] by simp
qed

lemma filter_zip_map:
  "map snd (filter (\<lambda>(c, i). Q c) (zip ts (map g ts))) = map g (filter Q ts)"
  by (induction ts) auto

lemma startswith_append: "startswith s (p @ q) \<Longrightarrow> startswith s p"
proof -
  assume "startswith s (p @ q)"
  then have "take (length p + length q) s = p @ q" by (simp add: startswith_def)
  then have "take (length p) (take (length p + length q) s) = take (length p) (p @ q)" by simp
  then show ?thesis by (simp add: startswith_def)
qed

lemma numbers_distinct: "distinct (response_numbers 100)"
  unfolding response_numbers_def by code_simp

lemma block_indices:
  assumes "distinct cols" "r \<in> set numbers"
  shows "map snd (filter (\<lambda>(col, i). startswith col (r @ ''_''))
            (zip (filter (\<lambda>c. startswith_any c numbers) cols)
                 (map (position cols) (filter (\<lambda>c. startswith_any c numbers) cols))))
         = map int (filter (\<lambda>i. startswith (cols ! i) (r @ ''_'')) [0..<length cols])"
proof -
  have sub: "startswith c (r @ ''_'') \<Longrightarrow> startswith_any c numbers" for c
    using assms(2) startswith_append [of c r "''_''"]
    by (auto simp: startswith_any_def list_ex_iff)
  have F: "filter (\<lambda>c. startswith c (r @ ''_'')) (filter (\<lambda>c. startswith_any c numbers) cols)
        = filter (\<lambda>c. startswith c (r @ ''_'')) cols"
    using sub by (auto simp: filter_filter intro: filter_cong)
  let ?T = "filter (\<lambda>c. startswith_any c numbers) cols"
  have "map snd (filter (\<lambda>(col, i). startswith col (r @ ''_'')) (zip ?T (map (position cols) ?T)))
        = map (position cols) (filter (\<lambda>c. startswith c (r @ ''_'')) ?T)"
    by (rule filter_zip_map)
  also have "\<dots> = map (position cols) (filter (\<lambda>c. startswith c (r @ ''_'')) cols)"
    by (simp only: F)
  also have "\<dots> = map int (filter (\<lambda>i. startswith (cols ! i) (r @ ''_'')) [0..<length cols])"
    by (rule positions_of_filter [OF assms(1)])
  finally show ?thesis .
qed

lemma locate_response_columns_eq:
  assumes "distinct (columns df)"
  shows "locate_response_columns df 100 = Inr (blocks_of (columns df))"
proof -
  let ?cols = "columns df"
  let ?numbers = "response_numbers 100"
  let ?targets = "filter (\<lambda>c. startswith_any c ?numbers) ?cols"
  let ?dict = "zip ?targets (map (position ?cols) ?targets)"
  have dt: "distinct ?targets" using assms by simp
  have dict: "fold (\<lambda>(c, i) d. dict_set d c i) ?dict [] = ?dict"
    using fold_dict_set_append [of ?dict "[]"] dt by simp
  have "unique_response_locations ?dict ?numbers
        = concat (map (\<lambda>r. if map snd (filter (\<lambda>(col, i). startswith col (r @ ''_'')) ?dict) \<noteq> []
                            then [(r, map snd (filter (\<lambda>(col, i). startswith col (r @ ''_'')) ?dict))]
                            else []) ?numbers)"
    unfolding unique_response_locations_def
    using fold_responses [OF numbers_distinct, of "[]"
            "\<lambda>r. map snd (filter (\<lambda>(col, i). startswith col (r @ ''_'')) ?dict)"]
    by simp
  also have "\<dots> = concat (map (\<lambda>r. if map int (filter (\<lambda>i. startswith (?cols ! i) (r @ ''_'')) [0..<length ?cols]) \<noteq> []
                            then [(r, map int (filter (\<lambda>i. startswith (?cols ! i) (r @ ''_'')) [0..<length ?cols]))]
                            else []) ?numbers)"
    by (intro arg_cong [where f = concat] map_cong refl) (simp only: block_indices [OF assms])
  also have "\<dots> = blocks_of ?cols"
    by (simp only: blocks_of_def block_positions_def response_numbers_def map_map comp_def)
  finally have url: "unique_response_locations ?dict ?numbers = blocks_of ?cols" .
  show ?thesis
    using assms by (simp add: locate_response_columns_def get_indexer_def bind_res_def Let_def dict url)
qed

lemma map_fst_blocks:
  "map fst (concat (map (\<lambda>k. if P k then [(f k, g k)] else []) ks)) = map f (filter P ks)"
  by (induction ks) auto

lemma map_of_blocks:
  "inj_on f (set ks) \<Longrightarrow> k \<in> set ks \<Longrightarrow>
   map_of (concat (map (\<lambda>k. if P k then [(f k, g k)] else []) ks)) (f k)
     = (if P k then Some (g k) else None)"
proof (induction ks arbitrary: k)
  case Nil
  then show ?case by simp
next
  case (Cons a ks)
  show ?case
  proof (cases "k = a")
    case True
    show ?thesis
    proof (cases "a \<in> set ks")
      case False
      then have "map_of (concat (map (\<lambda>k. if P k then [(f k, g k)] else []) ks)) (f a) = None"
        using Cons.prems(1) by (auto simp: map_of_eq_None_iff inj_on_def split: if_splits)
      with True show ?thesis by simp
    next
      case in_ks: True
      from Cons.prems(1) have "inj_on f (set ks)" by (simp add: inj_on_def)
      from Cons.IH [OF this in_ks]
      have "map_of (concat (map (\<lambda>k. if P k then [(f k, g k)] else []) ks)) (f a)
              = (if P a then Some (g a) else None)" .
      with \<open>k = a\<close> show ?thesis by simp
    qed
  next
    case False
    with Cons.prems have k: "k \<in> set ks" and ne: "f a \<noteq> f k" by (auto simp: inj_on_def)
    from Cons.prems(1) have "inj_on f (set ks)" by (simp add: inj_on_def)
    from Cons.IH [OF this k] ne show ?thesis by simp
  qed
qed

text \<open>
  C5. For a frame with distinct column names, \<open>locate_response_columns\<close> with
  maximum 100 returns, in ascending order of \<open>k\<close> from 1 to 99, one entry keyed by the
  numeral of \<open>k\<close> for each \<open>k\<close> that has a column starting with that numeral and an
  underscore; the entry holds exactly the positions of those columns, and a \<open>k\<close>
  without such a column has no entry.
\<close>

theorem locate_response_columns_blocks:
  assumes "distinct (columns df)"
  shows "locate_response_columns df 100 = Inr (blocks_of (columns df))
         \<and> distinct (map fst (blocks_of (columns df)))
         \<and> (\<forall>k. 1 \<le> k \<and> k < 100 \<longrightarrow>
               map_of (blocks_of (columns df)) (str_nat k)
                 = (if block_positions (columns df) k = [] then None
                    else Some (block_positions (columns df) k)))"
proof -
  have d: "distinct (map str_nat [1..<100])"
    using numbers_distinct by (simp add: response_numbers_def)
  then have inj: "inj_on str_nat (set [1..<100])" by (simp add: distinct_map)
  have a: "distinct (map fst (blocks_of (columns df)))"
    unfolding blocks_of_def map_fst_blocks using d by (rule distinct_map_filter)
  have b: "map_of (blocks_of (columns df)) (str_nat k)
             = (if block_positions (columns df) k = [] then None
                else Some (block_positions (columns df) k))" if "1 \<le> k \<and> k < 100" for k
  proof -
    from that have "k \<in> set [1..<100]" by simp
    from map_of_blocks [OF inj this, of "\<lambda>k. block_positions (columns df) k \<noteq> []"
                          "block_positions (columns df)"]
    show ?thesis by (simp add: blocks_of_def)
  qed
  from locate_response_columns_eq [OF assms] a b show ?thesis by blast
qed

theorem locate_response_columns_blocks_witness:
  "distinct (columns six_frame)
   \<and> locate_response_columns six_frame 100 = Inr [(''6'', [1, 2, 3, 4]), (''7'', [6]), (''60'', [5])]
   \<and> map_of (blocks_of (columns six_frame)) ''6'' = Some [1, 2, 3, 4]"
proof -
  have d: "distinct (columns six_frame)" by (simp add: six_frame_def)
  have e: "blocks_of (columns six_frame) = [(''6'', [1, 2, 3, 4]), (''7'', [6]), (''60'', [5])]"
    by code_simp
  from locate_response_columns_blocks [OF d] d e show ?thesis by simp
qed

section \<open>Properties of the header-driven field resolver\<close>

lemma bind_res_Inr_iff: "bind_res m f = Inr y \<longleftrightarrow> (\<exists>x. m = Inr x \<and> f x = Inr y)"
  by (cases m) (simp_all add: bind_res_def)

lemma bind_res_Inr [simp]: "bind_res (Inr x) f = f x"
  by (simp add: bind_res_def)

lemma bind_res_Inl [simp]: "bind_res (Inl e) f = Inl e"
  by (simp add: bind_res_def)

lemma iloc_nat: "i < length xs \<Longrightarrow> iloc xs (int i) = Inr (xs ! i)"
  by (simp add: iloc_def)

lemma iloc_list_nat:
  "\<forall>i \<in> set is. i < length xs \<Longrightarrow> iloc_list xs (map int is) = Inr (map ((!) xs) is)"
  by (induction "is") (simp_all add: iloc_nat)

lemma iloc_zero: "iloc xs 0 = (case xs of [] \<Rightarrow> Inl IndexError | x # ys \<Rightarrow> Inr x)"
  by (cases xs) (simp_all add: iloc_def)

lemma string_parse_header_eq:
  assumes "rows header = questions # others" "length questions \<le> length row"
  shows "string_parse_header row header marker = header_resolved questions row marker"
proof -
  let ?js = "filter (\<lambda>i. contains (str_cell (questions ! i)) marker) [0..<length questions]"
  have idx: "filter (\<lambda>i. contains (map str_cell questions ! i) marker) [0..<length questions] = ?js"
    by (auto intro: filter_cong)
  have "\<forall>i \<in> set ?js. i < length row" using assms(2) by auto
  then have il: "iloc_list row (map int ?js) = Inr (map ((!) row) ?js)" by (rule iloc_list_nat)
  show ?thesis
    unfolding string_parse_header_def Let_def
    by (simp add: assms(1) iloc_zero idx il dropna_def header_resolved_def
             split: list.splits)
qed

lemma header_resolved_Inr:
  "\<exists>v. header_resolved questions row marker = Inr v \<and> v \<noteq> ''''"
  by (simp add: header_resolved_def default_empty_string_def split: list.splits)

lemma read_scalars_fields:
  assumes "read_scalars cols header row = Inr req"
  shows "string_parse_header row header ''Programme'' = Inr (programme req)
         \<and> string_parse_header row header ''Year'' = Inr (courseyear req)
         \<and> string_parse_header row header ''submitting evidence with your application'' = Inr (evidence req)
         \<and> string_parse_header row header ''Dissertation supervisor name'' = Inr (supervisor req)
         \<and> reformat_column cols row COLNAME_PREFIX_STUDENTID = Inr (ID req)
         \<and> asm_codes req = [] \<and> asm_names req = [] \<and> other_asm req = []
         \<and> asm_is_resub req = [] \<and> asm_resubdate req = [] \<and> asm_resubstatus req = []"
  using assms unfolding read_scalars_def bind_res_Inr_iff
  by (auto simp: StudentRequest_def)

text \<open>
  C7. With the row of question texts \<open>questions\<close> on top of the header frame and a
  data row at least as long, \<open>string_parse_header\<close> never fails: it takes the row's
  cells at the positions whose question text contains the marker, leaves out the NA
  ones, and returns the first that is left, through the normalizer, or the ellipsis when
  none is left; the text returned is never empty. The programme, the course year, the
  evidence declaration and the supervisor name of a request are these values for the
  four markers of the source.
\<close>

theorem string_parse_header_first_value:
  assumes "rows header = questions # others" "length questions \<le> length row"
  shows "string_parse_header row header marker = header_resolved questions row marker
         \<and> (\<exists>v. string_parse_header row header marker = Inr v \<and> v \<noteq> '''')
         \<and> (\<forall>req. read_scalars cols header row = Inr req \<longrightarrow>
               header_resolved questions row ''Programme'' = Inr (programme req)
               \<and> header_resolved questions row ''Year'' = Inr (courseyear req)
               \<and> header_resolved questions row ''submitting evidence with your application''
                   = Inr (evidence req)
               \<and> header_resolved questions row ''Dissertation supervisor name''
                   = Inr (supervisor req))"
proof -
  note eq = string_parse_header_eq [OF assms]
  have a: "string_parse_header row header marker = header_resolved questions row marker"
    by (rule eq)
  have b: "\<exists>v. string_parse_header row header marker = Inr v \<and> v \<noteq> ''''"
    using header_resolved_Inr [of questions row marker] by (simp add: eq)
  have c: "header_resolved questions row ''Programme'' = Inr (programme req)
               \<and> header_resolved questions row ''Year'' = Inr (courseyear req)
               \<and> header_resolved questions row ''submitting evidence with your application''
                   = Inr (evidence req)
               \<and> header_resolved questions row ''Dissertation supervisor name''
                   = Inr (supervisor req)"
    if "read_scalars cols header row = Inr req" for req
    using read_scalars_fields [OF that] by (simp add: eq)
  from a b c show ?thesis by blast
qed

theorem string_parse_header_first_value_witness:
  "string_parse_header answers_example header_example ''Programme'' = Inr ''BMidwif''
   \<and> string_parse_header answers_example header_example ''Year'' = Inr ''2''
   \<and> string_parse_header answers_example header_example ''Dissertation supervisor name'' = Inr ''...''"
proof -
  have h: "rows header_example
             = [Str ''Nursing - Programme'', Str ''Midwifery - Programme'', Str ''Year''] # []"
    by (simp add: header_example_def)
  have l: "length [Str ''Nursing - Programme'', Str ''Midwifery - Programme'', Str ''Year'']
             \<le> length answers_example"
    by (simp add: answers_example_def)
  have v1: "header_resolved [Str ''Nursing - Programme'', Str ''Midwifery - Programme'', Str ''Year'']
              answers_example ''Programme'' = Inr ''BMidwif''"
    by code_simp
  have v2: "header_resolved [Str ''Nursing - Programme'', Str ''Midwifery - Programme'', Str ''Year'']
              answers_example ''Year'' = Inr ''2''"
    by code_simp
  have v3: "header_resolved [Str ''Nursing - Programme'', Str ''Midwifery - Programme'', Str ''Year'']
              answers_example ''Dissertation supervisor name'' = Inr ''...''"
    by code_simp
  from string_parse_header_first_value [OF h l, of "''Programme''"]
       string_parse_header_first_value [OF h l, of "''Year''"]
       string_parse_header_first_value [OF h l, of "''Dissertation supervisor name''"]
       v1 v2 v3
  show ?thesis by simp
qed

section \<open>Properties of the tabular projection\<close>

text \<open>
  C9 as written fails for the resubmission dates: for the request \<open>two_entries\<close>
  their newline-join is computed, and no cell of the output row holds it.
\<close>

theorem resubmission_dates_not_emitted:
  "join ''\<newline>'' (asm_resubdate two_entries) = ''None given\<newline>2025-02-20''
   \<and> resubdates [two_entries] = [''None given\<newline>2025-02-20'']
   \<and> ''None given\<newline>2025-02-20''
        \<notin> set (map snd (output_row (requests_to_spreadsheet [two_entries]) 0))"
  by (simp add: two_entries_def StudentRequest_def requests_to_spreadsheet_def output_row_def
                resubdates_def)

text \<open>
  C9, amended. The dictionary handed to the frame has the thirty-two columns below,
  each with one cell per request. In the row of request \<open>i\<close>, the cells of the unit
  codes, the assessment names, the resubmission flags, the other information and the
  submission statuses are the newline-joins of that request's lists, in list order; the
  resubmission dates are joined the same way into the list \<open>resubdates\<close>, which has no
  column. Two codes give the first code, a line break, the second code.
\<close>

theorem requests_to_spreadsheet_rows:
  "list_all (\<lambda>(c, cells). length cells = length requests) (requests_to_spreadsheet requests)
   \<and> map fst (requests_to_spreadsheet requests) =
       [''Date Submitted'', ''Full Name'', ''University Email'', ''Student ID Number'',
        ''Are you applying for a postgraduate dissertation or research project?'',
        ''No. Assessments/Exams'', ''Division'', ''Programme'', ''Year'', ''Unit Code'',
        ''Assessment name and submission date'', ''Is this a resubmission (including date)?'',
        ''Other Assessment Info.'', ''Submission Status'', ''Academic Advisor(s)'',
        ''Reason for Mitigation'', ''Period Affected'', ''Late Application - Reason'',
        ''DASS Registration'', ''Evidence Declaration'', ''Supervisor Aware?'',
        ''Supervisor Name'', ''Tier 4 Visa'', ''Proposed New Deadline'', ''Evidence Summary'',
        ''Outcome'', ''Email Type'', ''To Be Sent By (Initials)...'', ''Notes'', ''Panel Notes'',
        ''Outcome Sent to Student'', ''Outcome Sent Date'']
   \<and> (\<forall>i. i < length requests \<longrightarrow>
         map_of (output_row (requests_to_spreadsheet requests) i) ''Unit Code''
           = Some (join ''\<newline>'' (asm_codes (requests ! i)))
         \<and> map_of (output_row (requests_to_spreadsheet requests) i) ''Assessment name and submission date''
           = Some (join ''\<newline>'' (asm_names (requests ! i)))
         \<and> map_of (output_row (requests_to_spreadsheet requests) i) ''Is this a resubmission (including date)?''
           = Some (join ''\<newline>'' (asm_is_resub (requests ! i)))
         \<and> map_of (output_row (requests_to_spreadsheet requests) i) ''Other Assessment Info.''
           = Some (join ''\<newline>'' (other_asm (requests ! i)))
         \<and> map_of (output_row (requests_to_spreadsheet requests) i) ''Submission Status''
           = Some (join ''\<newline>'' (asm_resubstatus (requests ! i)))
         \<and> resubdates requests ! i = join ''\<newline>'' (asm_resubdate (requests ! i)))
   \<and> join ''\<newline>'' [code1, code2] = code1 @ ''\<newline>'' @ code2"
  by (simp add: requests_to_spreadsheet_def output_row_def resubdates_def)

theorem requests_to_spreadsheet_rows_witness:
  "map_of (output_row (requests_to_spreadsheet [two_entries]) 0) ''Unit Code''
     = Some ''NURS34555\<newline>NURS20012''
   \<and> map_of (output_row (requests_to_spreadsheet [two_entries]) 0) ''Submission Status''
     = Some ''Submitted\<newline>Will sit''
   \<and> list_all (\<lambda>(c, cells). length cells = 1) (requests_to_spreadsheet [two_entries])"
  using requests_to_spreadsheet_rows [of "[two_entries]"]
  by (simp add: two_entries_def StudentRequest_def)

end
